theory Spec2Isabelle
  imports Main
begin

section \<open>JavaScript values the orchestrators inspect\<close>

text \<open>
  The operations of the CLI provider are asynchronous TypeScript functions that call an
  injected executor \<open>execGit(args, cwd, ctx)\<close>. The model is a shallow embedding with
  explicit state passing: the executor is a parameter acting on an abstract world, every
  invocation is appended to a call log, and a rejected promise or a \<open>throw\<close> is the
  \<open>Inl\<close> branch of a sum.
\<close>

subsection \<open>Thrown values\<close>

text \<open>
  \<open>JsonRpcErrorCode\<close> is declared outside the sources at hand; the only member they
  name is \<open>InvalidParams\<close>.
\<close>

datatype JsonRpcErrorCode = InvalidParams | OtherRpcCode nat

text \<open>The \<open>code\<close> property of an error object: a number (an exit code) or a string.\<close>

datatype ErrCode = ExitCode int | SysCode string

text \<open>The error taxonomy of the specification (section 7).\<close>

datatype ErrorKind = ValidationError | EnvironmentError | ExecutionFailure | CancellationError

text \<open>
  What a \<open>catch\<close> clause can receive:
  \<^item> \<open>McpError c m\<close> is \<open>new McpError(c, m)\<close>;
  \<^item> \<open>JsError code m\<close> is any other instance of \<open>Error\<close>, with its optional
    \<open>code\<close> property and its message (\<open>new Error(m)\<close> is \<open>JsError None m\<close>);
  \<^item> \<open>Null\<close> is the value \<open>null\<close>, which a promise can reject with as with any value;
  \<^item> \<open>NonError v\<close> is any other thrown value that is not an instance of \<open>Error\<close>
    (\<open>undefined\<close>, a string, a plain object);
  \<^item> \<open>DomainError k m cause\<close> is the classified error of the specification.
\<close>

datatype thrown =
    McpError JsonRpcErrorCode string
  | JsError "ErrCode option" string
  | Null
  | NonError string
  | DomainError ErrorKind string thrown

text \<open>\<open>error instanceof Error\<close>\<close>

fun instanceofError :: "thrown \<Rightarrow> bool" where
  "instanceofError (NonError v) = False"
| "instanceofError Null = False"
| "instanceofError e = True"

text \<open>
  \<open>'code' in error && error.code === 1\<close>. The \<open>code\<close> of an \<open>McpError\<close> is a
  member of \<open>JsonRpcErrorCode\<close> (the negative numbers of JSON-RPC), never the number 1.
\<close>

fun codeIs1 :: "thrown \<Rightarrow> bool" where
  "codeIs1 (JsError (Some (ExitCode n)) m) = (n = 1)"
| "codeIs1 e = False"

text \<open>The kind a thrown value carries, if it is classified at all.\<close>

fun kindOf :: "thrown \<Rightarrow> ErrorKind option" where
  "kindOf (McpError InvalidParams m) = Some ValidationError"
| "kindOf (DomainError k m c) = Some k"
| "kindOf e = None"

subsection \<open>Strings\<close>

text \<open>
  JavaScript strings are modelled as \<open>string\<close>. White space is the ASCII part of what
  \<open>String.prototype.trim\<close> removes (tab, line feed, vertical tab, form feed, carriage
  return, space).
\<close>

definition isWhiteSpace :: "char \<Rightarrow> bool" where
  "isWhiteSpace c =
     (c = CHR 0x09 \<or> c = CHR 0x0A \<or> c = CHR 0x0B \<or> c = CHR 0x0C \<or> c = CHR 0x0D \<or> c = CHR 0x20)"

definition trimStart :: "string \<Rightarrow> string" where
  "trimStart s = dropWhile isWhiteSpace s"

definition trim :: "string \<Rightarrow> string" where
  "trim s = rev (dropWhile isWhiteSpace (rev (dropWhile isWhiteSpace s)))"

text \<open>\<open>s.includes(sep)\<close>: \<open>sep\<close> occurs in \<open>s\<close> as a contiguous substring.\<close>

fun includesStr :: "string \<Rightarrow> string \<Rightarrow> bool" where
  "includesStr [] sep = (sep = [])"
| "includesStr (c # cs) sep = (take (length sep) (c # cs) = sep \<or> includesStr cs sep)"

text \<open>
  \<open>s.split(sep)\<close> for a string separator. \<open>splitFrom sep cur s\<close> scans \<open>s\<close> with the
  current piece \<open>cur\<close>; an empty separator splits into single characters, and
  \<open>"".split("")\<close> is the empty array.
\<close>

function splitFrom :: "string \<Rightarrow> string \<Rightarrow> string \<Rightarrow> string list" where
  "splitFrom sep cur [] = [cur]"
| "splitFrom sep cur (c # cs) =
     (if sep \<noteq> [] \<and> take (length sep) (c # cs) = sep
      then cur # splitFrom sep [] (drop (length sep) (c # cs))
      else splitFrom sep (cur @ [c]) cs)"
  by pat_completeness auto
termination
  by (relation "measure (\<lambda>(sep, cur, s). length s)") auto

definition split :: "string \<Rightarrow> string \<Rightarrow> string list" where
  "split s sep = (if sep = [] then map (\<lambda>c. [c]) s else splitFrom sep [] s)"

definition newline :: string where
  "newline = [CHR 0x0A]"

text \<open>\<open>xs[i]\<close>, which is \<open>undefined\<close> out of range.\<close>

definition elemAt :: "'a list \<Rightarrow> nat \<Rightarrow> 'a option" where
  "elemAt xs i = (if i < length xs then Some (xs ! i) else None)"

text \<open>\<open>s || d\<close> for an optional string: \<open>undefined\<close> and the empty string are falsy.\<close>

fun orElse :: "string option \<Rightarrow> string \<Rightarrow> string" where
  "orElse None d = d"
| "orElse (Some s) d = (if s = [] then d else s)"

text \<open>
  Truthiness of an optional boolean. For an optional string (falsy when absent or empty)
  and an optional number (falsy when absent or zero) the tests are written out where they
  occur.
\<close>

fun truthy :: "bool option \<Rightarrow> bool" where
  "truthy None = False"
| "truthy (Some b) = b"

section \<open>The executor and the utilities module\<close>

record GitOutput =
  stdout :: string
  stderr :: string

record CommandSpec =
  command :: string
  args :: "string list"

text \<open>
  \<open>execGit(args, cwd, ctx)\<close>: a promise that resolves to the captured output or rejects.
  The world \<open>'w\<close> is everything the subprocess can read and change.
\<close>

type_synonym ('c, 'w) execGit =
  "string list \<Rightarrow> string \<Rightarrow> 'c \<Rightarrow> 'w \<Rightarrow> (thrown + GitOutput) \<times> 'w"

text \<open>
  The names imported from \<open>utils/index.js\<close>, a module that is not among the sources:
  the functions and constants the operations use are the fields of a parameter.
\<close>

record utils =
  buildGitCommand :: "CommandSpec \<Rightarrow> string list"
  mapGitError :: "thrown \<Rightarrow> string \<Rightarrow> thrown"
  shouldSignCommits :: bool
  GIT_FIELD_DELIMITER :: string
  GIT_RECORD_DELIMITER :: string
  parseGitDiffStat :: "string \<Rightarrow> string list \<times> int \<times> int"

text \<open>One subprocess invocation, as the call log keeps it.\<close>

record invocation =
  spec :: CommandSpec
  argv :: "string list"
  dir :: string
  succeeded :: bool

record 'w run =
  world :: 'w
  calls :: "invocation list"

text \<open>
  \<open>const cmd = buildGitCommand(spec); await execGit(cmd, cwd, ctx)\<close>: build the argument
  vector, run the subprocess on the world, and log the invocation with its outcome.
\<close>

definition runGit ::
  "utils \<Rightarrow> ('c, 'w) execGit \<Rightarrow> CommandSpec \<Rightarrow> string \<Rightarrow> 'c \<Rightarrow> 'w run
     \<Rightarrow> (thrown + GitOutput) \<times> 'w run" where
  "runGit u execGit sp cwd ctx s =
     (let cmd = buildGitCommand u sp;
          (r, w') = execGit cmd cwd ctx (world s)
      in (r, \<lparr>world = w',
               calls = calls s @ [\<lparr>spec = sp, argv = cmd, dir = cwd, succeeded = (\<not> isl r)\<rparr>]\<rparr>))"

record 'c GitOperationContext =
  workingDirectory :: string
  requestContext :: 'c
  tenantId :: string

section \<open>merge-base\<close>

text \<open>\<open>executeMergeBase\<close> of \<open>services/git/providers/cli/operations/history/merge-base.ts\<close>.\<close>

datatype MergeBaseMode = Default | All | IsAncestor

record GitMergeBaseOptions =
  refs :: "string list"
  mode :: "MergeBaseMode option"

text \<open>\<open>mergeBase: string | string[] | null\<close>\<close>

datatype MergeBaseValue = MBNull | MBHash string | MBHashes "string list"

record GitMergeBaseResult =
  mbSuccess :: bool
  mergeBase :: MergeBaseValue
  isAncestor :: "bool option"
  mbRefs :: "string list"
  mbMode :: MergeBaseMode

text \<open>The \<open>switch (mode)\<close> that pushes the mode's flag.\<close>

fun modeFlags :: "MergeBaseMode \<Rightarrow> string list" where
  "modeFlags All = [''--all'']"
| "modeFlags IsAncestor = [''--is-ancestor'']"
| "modeFlags Default = []"

text \<open>\<open>output.split('\n').map((line) => line.trim()).filter((line) => line.length > 0)\<close>\<close>

definition hashLines :: "string \<Rightarrow> string list" where
  "hashLines output = filter (\<lambda>line. length line > 0) (map trim (split output newline))"

text \<open>\<open>hashes[0] || null\<close>\<close>

definition firstHash :: "string list \<Rightarrow> MergeBaseValue" where
  "firstHash hashes =
     (case elemAt hashes 0 of None \<Rightarrow> MBNull | Some h \<Rightarrow> (if h = [] then MBNull else MBHash h))"

definition executeMergeBase ::
  "utils \<Rightarrow> GitMergeBaseOptions \<Rightarrow> 'c GitOperationContext \<Rightarrow> ('c, 'w) execGit \<Rightarrow> 'w run
     \<Rightarrow> (thrown + GitMergeBaseResult) \<times> 'w run" where
  "executeMergeBase u options context execGit s =
     (let mode = (case mode options of None \<Rightarrow> Default | Some m \<Rightarrow> m) in
      if mode = IsAncestor \<and> length (refs options) \<noteq> 2 then
        (Inl (mapGitError u
           (McpError InvalidParams ''is-ancestor mode requires exactly 2 refs'') ''merge-base''), s)
      else if length (refs options) < 1 then
        (Inl (mapGitError u
           (McpError InvalidParams ''At least 1 ref required for merge-base'') ''merge-base''), s)
      else
        let args = modeFlags mode @ refs options;
            (r, s') = runGit u execGit \<lparr>command = ''merge-base'', args = args\<rparr>
                        (workingDirectory context) (requestContext context) s
        in case r of
             Inr gitOutput \<Rightarrow>
               if mode = IsAncestor then
                 (Inr \<lparr>mbSuccess = True, mergeBase = MBNull, isAncestor = Some True,
                       mbRefs = refs options, mbMode = mode\<rparr>, s')
               else
                 let output = trim (stdout gitOutput) in
                 if output = [] then
                   (Inr \<lparr>mbSuccess = True, mergeBase = MBNull, isAncestor = None,
                         mbRefs = refs options, mbMode = mode\<rparr>, s')
                 else
                   let hashes = hashLines output in
                   if mode = All then
                     (Inr \<lparr>mbSuccess = True, mergeBase = MBHashes hashes, isAncestor = None,
                           mbRefs = refs options, mbMode = mode\<rparr>, s')
                   else
                     (Inr \<lparr>mbSuccess = True, mergeBase = firstHash hashes, isAncestor = None,
                           mbRefs = refs options, mbMode = mode\<rparr>, s')
           | Inl error \<Rightarrow>
               if mode = IsAncestor \<and> instanceofError error \<and> codeIs1 error then
                 (Inr \<lparr>mbSuccess = True, mergeBase = MBNull, isAncestor = Some False,
                       mbRefs = refs options, mbMode = mode\<rparr>, s')
               else (Inl (mapGitError u error ''merge-base''), s'))"

section \<open>commit\<close>

text \<open>
  \<open>executeCommit\<close> of the module \<open>services/git/providers/cli/operations/commits/commit\<close>;
  the line numbers are those of \<open>mcp-server/tools/definitions/git-merge-base.tool.ts\<close>, the
  file that holds it.
\<close>

record GitAuthor =
  name :: string
  email :: string

record GitCommitOptions =
  message :: string
  amend :: "bool option"
  allowEmpty :: "bool option"
  noVerify :: "bool option"
  author :: "GitAuthor option"
  sign :: "bool option"
  forceUnsignedOnFailure :: "bool option"

text \<open>
  \<open>timestamp\<close> is the number \<open>parseInt\<close> returns: \<open>None\<close> is \<open>NaN\<close>. Numbers are
  modelled as integers (the rounding of doubles beyond \<open>2^53\<close> is not).
\<close>

record GitCommitResult =
  commitSuccess :: bool
  commitHash :: string
  commitMessage :: string
  commitAuthor :: string
  timestamp :: "int option"
  commitFilesChanged :: "string list"

text \<open>Lines 173 to 190: the flags shared by the signed and the unsigned command.\<close>

definition commitArgs :: "GitCommitOptions \<Rightarrow> string list" where
  "commitArgs options =
     [''-m'', message options]
     @ (if truthy (amend options) then [''--amend''] else [])
     @ (if truthy (allowEmpty options) then [''--allow-empty''] else [])
     @ (if truthy (noVerify options) then [''--no-verify''] else [])
     @ (case author options of
          None \<Rightarrow> []
        | Some a \<Rightarrow> [''--author='' @ name a @ '' <'' @ email a @ ''>''])"

text \<open>\<open>options.sign ?? shouldSignCommits()\<close>\<close>

definition shouldSign :: "utils \<Rightarrow> GitCommitOptions \<Rightarrow> bool" where
  "shouldSign u options = (case sign options of None \<Rightarrow> shouldSignCommits u | Some b \<Rightarrow> b)"

definition signedCommand :: "GitCommitOptions \<Rightarrow> CommandSpec" where
  "signedCommand options = \<lparr>command = ''commit'', args = commitArgs options @ [''--gpg-sign'']\<rparr>"

definition unsignedCommand :: "GitCommitOptions \<Rightarrow> CommandSpec" where
  "unsignedCommand options =
     \<lparr>command = ''commit'', args = commitArgs options @ [''--no-gpg-sign'']\<rparr>"

subsection \<open>Decimal numbers\<close>

definition isDigit :: "char \<Rightarrow> bool" where
  "isDigit c = (c \<in> set ''0123456789'')"

definition digitValue :: "char \<Rightarrow> int" where
  "digitValue c = int (length (takeWhile (\<lambda>d. d \<noteq> c) ''0123456789''))"

text \<open>
  \<open>parseInt(s, 10)\<close>: leading white space is skipped, one sign is read, then the
  longest run of decimal digits; with no digit the result is \<open>NaN\<close>.
\<close>

definition parseInt10 :: "string \<Rightarrow> int option" where
  "parseInt10 s =
     (let t = trimStart s;
          neg = (take 1 t = ''-'');
          r = (if take 1 t = ''-'' \<or> take 1 t = ''+'' then drop 1 t else t);
          ds = takeWhile isDigit r
      in if ds = [] then None
         else Some ((if neg then - 1 else 1) * foldl (\<lambda>a c. 10 * a + digitValue c) 0 ds))"

text \<open>\<open>n.toString()\<close> and \<open>`${n}`\<close> for an integer.\<close>

fun showNat :: "nat \<Rightarrow> string" where
  "showNat n =
     (if n < 10 then [''0123456789'' ! n]
      else showNat (n div 10) @ [''0123456789'' ! (n mod 10)])"

definition showInt :: "int \<Rightarrow> string" where
  "showInt i = (if i < 0 then CHR ''-'' # showNat (nat (- i)) else showNat (nat i))"

subsection \<open>The metadata payload\<close>

text \<open>Lines 248 to 255: decode the output of \<open>git show\<close>.\<close>

definition metaParts :: "utils \<Rightarrow> string \<Rightarrow> string list" where
  "metaParts u out =
     (case elemAt (split out (GIT_RECORD_DELIMITER u)) 0 of
        None \<Rightarrow> []
      | Some p \<Rightarrow> split p (GIT_FIELD_DELIMITER u))"

definition parsedAuthor :: "utils \<Rightarrow> string \<Rightarrow> string" where
  "parsedAuthor u out = orElse (elemAt (metaParts u out) 0) []"

definition parsedTimestamp :: "utils \<Rightarrow> string \<Rightarrow> int option" where
  "parsedTimestamp u out = parseInt10 (orElse (elemAt (metaParts u out) 1) ''0'')"

definition parsedFiles :: "utils \<Rightarrow> string \<Rightarrow> string list" where
  "parsedFiles u out =
     (case elemAt (split out (GIT_RECORD_DELIMITER u)) 1 of
        None \<Rightarrow> []
      | Some p \<Rightarrow> filter (\<lambda>f. trim f \<noteq> []) (split p newline))"

subsection \<open>The operation\<close>

text \<open>
  Lines 196 to 211. \<open>Inr commitError\<close> is the value of the variable \<open>commitError\<close>
  after the block: \<open>Null\<close>, its initial value, when signing is off or the signed commit
  succeeded, and the caught value itself, whatever it is, when the signed commit failed
  and \<open>forceUnsignedOnFailure\<close> is truthy. \<open>Inl error\<close>: the failure is thrown.
\<close>

definition attemptSigned ::
  "utils \<Rightarrow> GitCommitOptions \<Rightarrow> 'c GitOperationContext \<Rightarrow> ('c, 'w) execGit \<Rightarrow> 'w run
     \<Rightarrow> (thrown + thrown) \<times> 'w run" where
  "attemptSigned u options context execGit s =
     (if shouldSign u options then
        (case runGit u execGit (signedCommand options)
                (workingDirectory context) (requestContext context) s of
           (Inr out, s1) \<Rightarrow> (Inr Null, s1)
         | (Inl error, s1) \<Rightarrow>
             if truthy (forceUnsignedOnFailure options) then (Inr error, s1)
             else (Inl error, s1))
      else (Inr Null, s))"

text \<open>Lines 214 to 219: \<open>if (commitError !== null || !shouldSign)\<close>.\<close>

definition attemptUnsigned ::
  "utils \<Rightarrow> GitCommitOptions \<Rightarrow> 'c GitOperationContext \<Rightarrow> ('c, 'w) execGit
     \<Rightarrow> thrown \<Rightarrow> 'w run \<Rightarrow> (thrown + unit) \<times> 'w run" where
  "attemptUnsigned u options context execGit commitError s =
     (if commitError \<noteq> Null \<or> \<not> shouldSign u options then
        (case runGit u execGit (unsignedCommand options)
                (workingDirectory context) (requestContext context) s of
           (Inr out, s1) \<Rightarrow> (Inr (), s1)
         | (Inl error, s1) \<Rightarrow> (Inl error, s1))
      else (Inr (), s))"

text \<open>Lines 222 to 266: resolve \<open>HEAD\<close>, show the commit, decode the payload.\<close>

definition showCommand :: "utils \<Rightarrow> string \<Rightarrow> CommandSpec" where
  "showCommand u hash =
     \<lparr>command = ''show'',
      args = [''--format=%an'' @ GIT_FIELD_DELIMITER u @ ''%at'' @ GIT_RECORD_DELIMITER u,
              ''--name-only'', hash]\<rparr>"

definition readCommit ::
  "utils \<Rightarrow> GitCommitOptions \<Rightarrow> 'c GitOperationContext \<Rightarrow> ('c, 'w) execGit \<Rightarrow> 'w run
     \<Rightarrow> (thrown + GitCommitResult) \<times> 'w run" where
  "readCommit u options context execGit s =
     (case runGit u execGit \<lparr>command = ''rev-parse'', args = [''HEAD'']\<rparr>
             (workingDirectory context) (requestContext context) s of
        (Inl error, s1) \<Rightarrow> (Inl error, s1)
      | (Inr hashResult, s1) \<Rightarrow>
          let hash = trim (stdout hashResult) in
          (case runGit u execGit (showCommand u hash)
                  (workingDirectory context) (requestContext context) s1 of
             (Inl error, s2) \<Rightarrow> (Inl error, s2)
           | (Inr showResult, s2) \<Rightarrow>
               (Inr \<lparr>commitSuccess = True, commitHash = hash, commitMessage = message options,
                     commitAuthor = parsedAuthor u (stdout showResult),
                     timestamp = parsedTimestamp u (stdout showResult),
                     commitFilesChanged = parsedFiles u (stdout showResult)\<rparr>, s2)))"

text \<open>The whole function: every failure leaves through \<open>mapGitError(error, 'commit')\<close>.\<close>

definition executeCommit ::
  "utils \<Rightarrow> GitCommitOptions \<Rightarrow> 'c GitOperationContext \<Rightarrow> ('c, 'w) execGit \<Rightarrow> 'w run
     \<Rightarrow> (thrown + GitCommitResult) \<times> 'w run" where
  "executeCommit u options context execGit s =
     (case attemptSigned u options context execGit s of
        (Inl error, s1) \<Rightarrow> (Inl (mapGitError u error ''commit''), s1)
      | (Inr commitError, s1) \<Rightarrow>
          (case attemptUnsigned u options context execGit commitError s1 of
             (Inl error, s2) \<Rightarrow> (Inl (mapGitError u error ''commit''), s2)
           | (Inr committed, s2) \<Rightarrow>
               (case readCommit u options context execGit s2 of
                  (Inl error, s3) \<Rightarrow> (Inl (mapGitError u error ''commit''), s3)
                | (Inr result, s3) \<Rightarrow> (Inr result, s3))))"

section \<open>clone\<close>

text \<open>\<open>executeClone\<close> of \<open>services/git/providers/cli/operations/core/clone.ts\<close>.\<close>

subsection \<open>POSIX paths\<close>

text \<open>
  \<open>path.resolve\<close>, \<open>path.dirname\<close> and \<open>path.basename\<close> of Node's \<open>node:path\<close> on
  a POSIX system, path segment by path segment. \<open>normalizeSegments allowAboveRoot acc segs\<close>
  keeps the segments read so far in \<open>acc\<close>, last first: empty segments and \<open>.\<close> vanish,
  and \<open>..\<close> removes the segment before it.
\<close>

fun normalizeSegments :: "bool \<Rightarrow> string list \<Rightarrow> string list \<Rightarrow> string list" where
  "normalizeSegments allowAboveRoot acc [] = rev acc"
| "normalizeSegments allowAboveRoot acc (seg # segs) =
     (if seg = [] \<or> seg = ''.'' then normalizeSegments allowAboveRoot acc segs
      else if seg = ''..'' then
        (case acc of
           [] \<Rightarrow> normalizeSegments allowAboveRoot (if allowAboveRoot then [''..''] else []) segs
         | lastSeg # below \<Rightarrow>
             if lastSeg = ''..'' then normalizeSegments allowAboveRoot (''..'' # acc) segs
             else normalizeSegments allowAboveRoot below segs)
      else normalizeSegments allowAboveRoot (seg # acc) segs)"

fun joinSegments :: "string list \<Rightarrow> string" where
  "joinSegments [] = []"
| "joinSegments [seg] = seg"
| "joinSegments (seg # segs) = seg @ ''/'' @ joinSegments segs"

definition normalizeString :: "string \<Rightarrow> bool \<Rightarrow> string" where
  "normalizeString p allowAboveRoot =
     joinSegments (normalizeSegments allowAboveRoot [] (split p ''/''))"

text \<open>
  \<open>path.resolve(p)\<close> with \<open>process.cwd() = cwd\<close>: an empty argument is skipped, and the
  working directory is prepended unless \<open>p\<close> is absolute.
\<close>

definition pathResolve :: "string \<Rightarrow> string \<Rightarrow> string" where
  "pathResolve cwd p =
     (let pAbsolute = (take 1 p = ''/'');
          r1 = (if p = [] then [] else p @ ''/'');
          r2 = (if pAbsolute \<or> cwd = [] then r1 else cwd @ ''/'' @ r1);
          resolvedAbsolute = (pAbsolute \<or> take 1 cwd = ''/'');
          n = normalizeString r2 (\<not> resolvedAbsolute)
      in if resolvedAbsolute then CHR ''/'' # n
         else if n \<noteq> [] then n else ''.'')"

text \<open>
  \<open>path.dirname(p)\<close>: scanning from the end down to index 1, trailing slashes are
  skipped, then the last segment; the slash before it ends the directory part.
\<close>

definition pathDirname :: "string \<Rightarrow> string" where
  "pathDirname p =
     (if p = [] then ''.''
      else
        let hasRoot = (take 1 p = ''/'');
            upto = dropWhile (\<lambda>c. c \<noteq> CHR ''/'')
                       (dropWhile (\<lambda>c. c = CHR ''/'') (rev (drop 1 p)));
            stop = length upto
        in if upto = [] then (if hasRoot then ''/'' else ''.'')
           else if hasRoot \<and> stop = 1 then ''//''
           else take stop p)"

text \<open>\<open>path.basename(p)\<close>: the last segment, trailing slashes apart.\<close>

definition pathBasename :: "string \<Rightarrow> string" where
  "pathBasename p =
     rev (takeWhile (\<lambda>c. c \<noteq> CHR ''/'') (dropWhile (\<lambda>c. c = CHR ''/'') (rev p)))"

subsection \<open>The operation\<close>

record GitCloneOptions =
  remoteUrl :: string
  localPath :: string
  branch :: "string option"
  depth :: "int option"
  bare :: "bool option"
  mirror :: "bool option"
  recurseSubmodules :: "bool option"

record GitCloneResult =
  cloneSuccess :: bool
  cloneLocalPath :: string
  cloneRemoteUrl :: string
  cloneBranch :: string

text \<open>Lines 37 to 57, with \<open>targetDirName\<close> the destination.\<close>

definition cloneArgs :: "GitCloneOptions \<Rightarrow> string \<Rightarrow> string list" where
  "cloneArgs options targetDirName =
     [remoteUrl options, targetDirName]
     @ (case branch options of
          None \<Rightarrow> []
        | Some b \<Rightarrow> (if b = [] then [] else [''--branch'', b]))
     @ (case depth options of
          None \<Rightarrow> []
        | Some d \<Rightarrow> (if d = 0 then [] else [''--depth'', showInt d]))
     @ (if truthy (bare options) then [''--bare''] else [])
     @ (if truthy (mirror options) then [''--mirror''] else [])
     @ (if truthy (recurseSubmodules options) then [''--recurse-submodules''] else [])"

text \<open>\<open>processCwd\<close> is \<open>process.cwd()\<close>, which \<open>path.resolve\<close> reads.\<close>

definition executeClone ::
  "utils \<Rightarrow> string \<Rightarrow> GitCloneOptions \<Rightarrow> 'c GitOperationContext \<Rightarrow> ('c, 'w) execGit \<Rightarrow> 'w run
     \<Rightarrow> (thrown + GitCloneResult) \<times> 'w run" where
  "executeClone u processCwd options context execGit s =
     (let absoluteLocalPath = pathResolve processCwd (localPath options);
          parentDir = pathDirname absoluteLocalPath;
          targetDirName = pathBasename absoluteLocalPath
      in case runGit u execGit \<lparr>command = ''clone'', args = cloneArgs options targetDirName\<rparr>
                parentDir (requestContext context) s of
           (Inl error, s1) \<Rightarrow> (Inl (mapGitError u error ''clone''), s1)
         | (Inr out, s1) \<Rightarrow>
             (Inr \<lparr>cloneSuccess = True, cloneLocalPath = absoluteLocalPath,
                   cloneRemoteUrl = remoteUrl options,
                   cloneBranch = orElse (branch options) ''main''\<rparr>, s1))"

section \<open>diff\<close>

subsection \<open>The provider's operation\<close>

text \<open>\<open>executeDiff\<close> of the module \<open>services/git/providers/cli/operations/commits/diff\<close>.\<close>

record GitDiffOptions =
  source :: "string option"
  target :: "string option"
  path :: "string option"
  staged :: "bool option"
  includeUntracked :: "bool option"
  stat :: "bool option"
  nameOnly :: "bool option"
  unified :: "int option"

text \<open>
  The declaration of \<open>GitDiffResult\<close> is not among the sources; the tool reads its
  numbers as optional (\<open>result.filesChanged || 0\<close>).
\<close>

record GitDiffResult =
  diff :: string
  filesChanged :: "int option"
  insertions :: "int option"
  deletions :: "int option"
  binary :: "bool option"

text \<open>\<open>if (v) args.push(v)\<close> for an optional string.\<close>

fun pushStr :: "string option \<Rightarrow> string list" where
  "pushStr None = []"
| "pushStr (Some v) = (if v = [] then [] else [v])"

text \<open>Lines 37 to 61.\<close>

definition diffArgs :: "GitDiffOptions \<Rightarrow> string list" where
  "diffArgs options =
     (if truthy (staged options) then [''--cached''] else [])
     @ (if truthy (nameOnly options) then [''--name-only''] else [])
     @ pushStr (source options)
     @ pushStr (target options)
     @ (case path options of
          None \<Rightarrow> []
        | Some p \<Rightarrow> (if p = [] then [] else [''--'', p]))
     @ (case unified options of
          None \<Rightarrow> []
        | Some n \<Rightarrow>
            (if n \<noteq> 0 \<and> \<not> truthy (nameOnly options) then [''--unified='' @ showInt n]
             else []))"

text \<open>Line 74: \<open>[...args.filter((a) => a !== '--name-only'), '--stat']\<close>\<close>

definition statArgs :: "GitDiffOptions \<Rightarrow> string list" where
  "statArgs options = filter (\<lambda>a. a \<noteq> ''--name-only'') (diffArgs options) @ [''--stat'']"

definition executeDiff ::
  "utils \<Rightarrow> GitDiffOptions \<Rightarrow> 'c GitOperationContext \<Rightarrow> ('c, 'w) execGit \<Rightarrow> 'w run
     \<Rightarrow> (thrown + GitDiffResult) \<times> 'w run" where
  "executeDiff u options context execGit s =
     (case runGit u execGit \<lparr>command = ''diff'', args = diffArgs options\<rparr>
             (workingDirectory context) (requestContext context) s of
        (Inl error, s1) \<Rightarrow> (Inl (mapGitError u error ''diff''), s1)
      | (Inr diffResult, s1) \<Rightarrow>
          (case runGit u execGit \<lparr>command = ''diff'', args = statArgs options\<rparr>
                  (workingDirectory context) (requestContext context) s1 of
             (Inl error, s2) \<Rightarrow> (Inl (mapGitError u error ''diff''), s2)
           | (Inr statResult, s2) \<Rightarrow>
               (case parseGitDiffStat u (stdout statResult) of
                  (files, totalAdditions, totalDeletions) \<Rightarrow>
                    (Inr \<lparr>diff = stdout diffResult,
                          filesChanged = Some (int (length files)),
                          insertions = Some totalAdditions,
                          deletions = Some totalDeletions,
                          binary = Some (includesStr (stdout diffResult) ''Binary files'')\<rparr>,
                     s2))))"

subsection \<open>The tool\<close>

text \<open>\<open>gitDiffLogic\<close> of \<open>mcp-server/tools/definitions/git-diff.tool.ts\<close>.\<close>

record DiffToolInput =
  inPath :: string
  inTarget :: "string option"
  inSource :: "string option"
  inPaths :: "string list option"
  inStaged :: bool
  inIncludeUntracked :: bool
  inNameOnly :: bool
  inStat :: bool
  contextLines :: int

record DiffToolOutput =
  outSuccess :: bool
  outDiff :: string
  outFilesChanged :: int
  outInsertions :: "int option"
  outDeletions :: "int option"

text \<open>\<open>appContext\<close>, of which the tool reads \<open>tenantId\<close>.\<close>

record AppContext =
  appTenantId :: "string option"

text \<open>\<open>provider.diff(options, context)\<close>, acting on a state \<open>'s\<close>.\<close>

type_synonym 's diffProvider =
  "GitDiffOptions \<Rightarrow> AppContext GitOperationContext \<Rightarrow> 's \<Rightarrow> (thrown + GitDiffResult) \<times> 's"

text \<open>Lines 91 to 117: \<open>Inl\<close> is the \<open>throw new Error(...)\<close> for more than one path.\<close>

definition diffToolOptions :: "DiffToolInput \<Rightarrow> thrown + GitDiffOptions" where
  "diffToolOptions input =
     (let diffOptions =
            \<lparr>source = inSource input, target = inTarget input, path = None,
             staged = Some (inStaged input),
             includeUntracked = Some (inIncludeUntracked input),
             stat = Some (inStat input), nameOnly = Some (inNameOnly input),
             unified = Some (contextLines input)\<rparr>
      in case inPaths input of
           None \<Rightarrow> Inr diffOptions
         | Some paths \<Rightarrow>
             if length paths > 0 then
               (if length paths > 1 then
                  Inl (JsError None
                    ''Multiple paths not yet supported - please specify a single path'')
                else Inr (diffOptions\<lparr>path := elemAt paths 0\<rparr>))
             else Inr diffOptions)"

definition gitDiffLogic ::
  "DiffToolInput \<Rightarrow> 's diffProvider \<Rightarrow> string \<Rightarrow> AppContext \<Rightarrow> 's
     \<Rightarrow> (thrown + DiffToolOutput) \<times> 's" where
  "gitDiffLogic input provider targetPath appContext s =
     (case diffToolOptions input of
        Inl error \<Rightarrow> (Inl error, s)
      | Inr diffOptions \<Rightarrow>
          (case provider diffOptions
                  \<lparr>workingDirectory = targetPath, requestContext = appContext,
                   tenantId = orElse (appTenantId appContext) ''default-tenant''\<rparr> s of
             (Inl error, s1) \<Rightarrow> (Inl error, s1)
           | (Inr result, s1) \<Rightarrow>
               (Inr \<lparr>outSuccess = True, outDiff = diff result,
                     outFilesChanged = (case filesChanged result of None \<Rightarrow> 0 | Some n \<Rightarrow> n),
                     outInsertions = insertions result,
                     outDeletions = deletions result\<rparr>, s1)))"

section \<open>Call logs and sample inputs\<close>

text \<open>The invocations a call adds to the log, and the commits among them that succeeded.\<close>

definition newCalls :: "'w run \<Rightarrow> 'w run \<Rightarrow> invocation list" where
  "newCalls s s' = drop (length (calls s)) (calls s')"

definition successfulWrites :: "invocation list \<Rightarrow> invocation list" where
  "successfulWrites is = filter (\<lambda>i. command (spec i) = ''commit'' \<and> succeeded i) is"

text \<open>
  Modelled from the spec: \<open>buildGitCommand\<close>, of the utilities module that is not among
  the sources. Section 4.1: from a command name and an ordered list of arguments it
  produces the ordered argument vector, each argument a discrete element.
\<close>

definition specBuildGitCommand :: "CommandSpec \<Rightarrow> string list" where
  "specBuildGitCommand sp = command sp # args sp"

text \<open>
  Modelled from the spec: \<open>mapGitError\<close>, of the utilities module that is not among the
  sources. Section 4.3: errors that are classified already pass through unchanged; a
  failure to spawn the process (a string \<open>code\<close>) is an \<open>EnvironmentError\<close>; any other
  failure of the process is an \<open>ExecutionFailure\<close>; the original error is kept as the
  cause.
\<close>

fun specMapGitError :: "thrown \<Rightarrow> string \<Rightarrow> thrown" where
  "specMapGitError (McpError c m) operation = McpError c m"
| "specMapGitError (DomainError k m cause) operation = DomainError k m cause"
| "specMapGitError (JsError (Some (SysCode c)) m) operation =
     DomainError EnvironmentError m (JsError (Some (SysCode c)) m)"
| "specMapGitError (JsError code m) operation = DomainError ExecutionFailure m (JsError code m)"
| "specMapGitError (NonError v) operation = DomainError ExecutionFailure v (NonError v)"
| "specMapGitError Null operation = DomainError ExecutionFailure [] Null"

text \<open>
  A utilities module for the examples: the two functions above, no signing by default,
  the ASCII unit and record separators as delimiters, and a diffstat parser that reads
  no file out of its input (the examples give it the empty summary).
\<close>

definition sampleUtils :: utils where
  "sampleUtils =
     \<lparr>buildGitCommand = specBuildGitCommand, mapGitError = specMapGitError,
      shouldSignCommits = False,
      GIT_FIELD_DELIMITER = [CHR 0x1F], GIT_RECORD_DELIMITER = [CHR 0x1E],
      parseGitDiffStat = (\<lambda>out. ([], 0, 0))\<rparr>"

text \<open>
  An executor for the examples: the world is the list of outcomes still to come, and each
  invocation takes the next one (an empty success when none is left).
\<close>

definition scripted :: "(unit, (thrown + GitOutput) list) execGit" where
  "scripted cmd cwd ctx w =
     (case w of
        [] \<Rightarrow> (Inr \<lparr>stdout = [], stderr = []\<rparr>, [])
      | r # rest \<Rightarrow> (r, rest))"

definition sampleContext :: "unit GitOperationContext" where
  "sampleContext = \<lparr>workingDirectory = ''/repo'', requestContext = (), tenantId = ''default-tenant''\<rparr>"

definition ok :: "string \<Rightarrow> thrown + GitOutput" where
  "ok out = Inr \<lparr>stdout = out, stderr = []\<rparr>"

definition exited :: "int \<Rightarrow> thrown + GitOutput" where
  "exited n = Inl (JsError (Some (ExitCode n)) ''Command failed'')"

text \<open>A rejection with \<open>null\<close>.\<close>

definition rejectedNull :: "thrown + GitOutput" where
  "rejectedNull = Inl Null"

text \<open>Commit options that ask for a signature, without and with the unsigned fallback.\<close>

definition signedOpts :: GitCommitOptions where
  "signedOpts =
     \<lparr>message = ''fix'', amend = None, allowEmpty = None, noVerify = None,
      author = None, sign = Some True, forceUnsignedOnFailure = None\<rparr>"

definition fallbackOpts :: GitCommitOptions where
  "fallbackOpts = signedOpts\<lparr>forceUnsignedOnFailure := Some True\<rparr>"

text \<open>An output of \<open>git show\<close> in the format the operation asks for.\<close>

definition showPayload :: string where
  "showPayload =
     ''Alice'' @ [CHR 0x1F] @ ''1700000000'' @ [CHR 0x1E] @ newline @ newline @ ''a.txt'' @ newline"

text \<open>A clone into \<open>/work/proj\<close>, a diff limited to one path, and a diff tool call with two.\<close>

definition cloneOpts :: GitCloneOptions where
  "cloneOpts =
     \<lparr>remoteUrl = ''https://example.org/proj.git'', localPath = ''/work/proj'',
      branch = None, depth = None, bare = None, mirror = None, recurseSubmodules = None\<rparr>"

definition diffOpts :: GitDiffOptions where
  "diffOpts =
     \<lparr>source = Some ''HEAD~1'', target = Some ''HEAD'', path = Some ''src'',
      staged = Some False, includeUntracked = Some False, stat = Some False,
      nameOnly = Some True, unified = Some 3\<rparr>"

definition diffInput :: DiffToolInput where
  "diffInput =
     \<lparr>inPath = ''.'', inTarget = None, inSource = None,
      inPaths = Some [''a.txt'', ''b.txt''], inStaged = False, inIncludeUntracked = False,
      inNameOnly = False, inStat = False, contextLines = 3\<rparr>"

text \<open>The provider's \<open>diff\<close> as the CLI provider implements it, on the scripted executor.\<close>

definition cliDiff :: "(thrown + GitOutput) list run diffProvider" where
  "cliDiff options context s =
     executeDiff sampleUtils options context (\<lambda>cmd cwd ctx. scripted cmd cwd ()) s"

section \<open>Properties of the executor wrapper\<close>

lemma runGit_eq:
  "execGit (buildGitCommand u sp) cwd ctx (world s) = (r, w') \<Longrightarrow>
   runGit u execGit sp cwd ctx s =
     (r, \<lparr>world = w',
          calls = calls s @
            [\<lparr>spec = sp, argv = buildGitCommand u sp, dir = cwd, succeeded = \<not> isl r\<rparr>]\<rparr>)"
  by (simp add: runGit_def)

lemma runGit_calls:
  "runGit u execGit sp cwd ctx s = (r, s') \<Longrightarrow>
   calls s' = calls s @
     [\<lparr>spec = sp, argv = buildGitCommand u sp, dir = cwd, succeeded = \<not> isl r\<rparr>]"
  by (auto simp: runGit_def Let_def split: prod.splits)

section \<open>merge-base: validation and the ancestry test\<close>

lemma mergeBase_rejects_ancestor_arity:
  "mode options = Some IsAncestor \<Longrightarrow> length (refs options) \<noteq> 2 \<Longrightarrow>
   executeMergeBase u options context execGit s =
     (Inl (mapGitError u
        (McpError InvalidParams ''is-ancestor mode requires exactly 2 refs'') ''merge-base''), s)"
  by (simp add: executeMergeBase_def)

lemma mergeBase_rejects_no_refs:
  "mode options \<noteq> Some IsAncestor \<Longrightarrow> refs options = [] \<Longrightarrow>
   executeMergeBase u options context execGit s =
     (Inl (mapGitError u
        (McpError InvalidParams ''At least 1 ref required for merge-base'') ''merge-base''), s)"
  by (simp add: executeMergeBase_def split: option.splits)

text \<open>
  Claim C7. When the number of refs is wrong (not exactly two in the mode
  \<open>is-ancestor\<close>, or none at all), \<open>executeMergeBase\<close> fails with an \<open>McpError\<close> of code
  \<open>InvalidParams\<close>, a validation error, handed to \<open>mapGitError\<close>; the run state it returns
  is the one it was given, so the world is untouched and the call log has no new
  invocation: no command was built and no subprocess ran. When \<open>mapGitError\<close> keeps
  validation errors validation errors (the specification has it pass them through
  unchanged), the error the caller receives is a validation error.
\<close>

theorem mergeBase_ref_count_validated:
  assumes "(mode options = Some IsAncestor \<and> length (refs options) \<noteq> 2) \<or> refs options = []"
  shows "(\<exists>msg. (msg = ''is-ancestor mode requires exactly 2 refs''
                \<or> msg = ''At least 1 ref required for merge-base'')
           \<and> executeMergeBase u options context execGit s =
               (Inl (mapGitError u (McpError InvalidParams msg) ''merge-base''), s)
           \<and> kindOf (McpError InvalidParams msg) = Some ValidationError)
       \<and> ((\<forall>e operation. kindOf e = Some ValidationError
              \<longrightarrow> kindOf (mapGitError u e operation) = Some ValidationError)
           \<longrightarrow> (\<exists>e. executeMergeBase u options context execGit s = (Inl e, s)
                    \<and> kindOf e = Some ValidationError))"
proof -
  have rejected: "\<exists>msg. (msg = ''is-ancestor mode requires exactly 2 refs''
                \<or> msg = ''At least 1 ref required for merge-base'')
           \<and> executeMergeBase u options context execGit s =
               (Inl (mapGitError u (McpError InvalidParams msg) ''merge-base''), s)
           \<and> kindOf (McpError InvalidParams msg) = Some ValidationError"
  proof (cases "mode options = Some IsAncestor")
    case True
    with assms have "length (refs options) \<noteq> 2" by auto
    from mergeBase_rejects_ancestor_arity[OF True this] show ?thesis
      by (intro exI[of _ "''is-ancestor mode requires exactly 2 refs''"]) simp
  next
    case False
    with assms have "refs options = []" by auto
    from mergeBase_rejects_no_refs[OF False this] show ?thesis
      by (intro exI[of _ "''At least 1 ref required for merge-base''"]) simp
  qed
  then obtain msg where
    run: "executeMergeBase u options context execGit s =
            (Inl (mapGitError u (McpError InvalidParams msg) ''merge-base''), s)"
    and kind: "kindOf (McpError InvalidParams msg) = Some ValidationError"
    by blast
  have "\<exists>e. executeMergeBase u options context execGit s = (Inl e, s)
            \<and> kindOf e = Some ValidationError"
    if keeps: "\<forall>e operation. kindOf e = Some ValidationError
                 \<longrightarrow> kindOf (mapGitError u e operation) = Some ValidationError"
  proof -
    from keeps kind
    have "kindOf (mapGitError u (McpError InvalidParams msg) ''merge-base'') = Some ValidationError"
      by blast
    with run show ?thesis by blast
  qed
  with rejected show ?thesis by blast
qed

text \<open>
  One ref in the mode \<open>is-ancestor\<close>, and no ref in the default mode: with the error
  mapper of the specification the caller receives the validation error itself, and the
  outcome scripted for the subprocess is still pending.
\<close>

theorem mergeBase_ref_count_validated_witness:
  "executeMergeBase sampleUtils \<lparr>refs = [''main''], mode = Some IsAncestor\<rparr> sampleContext
      scripted \<lparr>world = [exited 1], calls = []\<rparr>
    = (Inl (McpError InvalidParams ''is-ancestor mode requires exactly 2 refs''),
       \<lparr>world = [exited 1], calls = []\<rparr>)
   \<and> executeMergeBase sampleUtils \<lparr>refs = [], mode = None\<rparr> sampleContext
      scripted \<lparr>world = [exited 1], calls = []\<rparr>
    = (Inl (McpError InvalidParams ''At least 1 ref required for merge-base''),
       \<lparr>world = [exited 1], calls = []\<rparr>)"
  using mergeBase_ref_count_validated
          [of "\<lparr>refs = [''main''], mode = Some IsAncestor\<rparr>" sampleUtils sampleContext
              scripted "\<lparr>world = [exited 1], calls = []\<rparr>"]
  by (simp add: executeMergeBase_def sampleUtils_def)

text \<open>
  Claim C1. In the mode \<open>is-ancestor\<close> with exactly two refs, let the subprocess fail
  with the error \<open>e\<close>. If \<open>e\<close> is an error object whose \<open>code\<close> is the number 1 (the
  exit code for "not an ancestor"), the operation returns the successful result with
  \<open>isAncestor = false\<close> and \<open>mergeBase = null\<close>; nothing is thrown. Any other exit code,
  and any other failure, leaves as \<open>mapGitError(e, 'merge-base')\<close>.
\<close>

theorem isAncestor_exit_code_one_is_success:
  assumes "mode options = Some IsAncestor" and "length (refs options) = 2"
    and "execGit
           (buildGitCommand u
              \<lparr>command = ''merge-base'', args = ''--is-ancestor'' # refs options\<rparr>)
           (workingDirectory context) (requestContext context) (world s) = (Inl e, w')"
  shows "(e = JsError (Some (ExitCode 1)) m \<longrightarrow>
            fst (executeMergeBase u options context execGit s) =
              Inr \<lparr>mbSuccess = True, mergeBase = MBNull, isAncestor = Some False,
                    mbRefs = refs options, mbMode = IsAncestor\<rparr>)
       \<and> (e = JsError (Some (ExitCode n)) m \<and> n \<noteq> 1 \<longrightarrow>
            fst (executeMergeBase u options context execGit s) =
              Inl (mapGitError u e ''merge-base''))
       \<and> fst (executeMergeBase u options context execGit s) =
           (if instanceofError e \<and> codeIs1 e
            then Inr \<lparr>mbSuccess = True, mergeBase = MBNull, isAncestor = Some False,
                       mbRefs = refs options, mbMode = IsAncestor\<rparr>
            else Inl (mapGitError u e ''merge-base''))"
  using assms by (auto simp: executeMergeBase_def runGit_def Let_def split: option.splits)

text \<open>Exit code 1 is the answer "no"; exit code 128 is an execution failure.\<close>

theorem isAncestor_exit_code_one_is_success_witness:
  "fst (executeMergeBase sampleUtils \<lparr>refs = [''topic'', ''main''], mode = Some IsAncestor\<rparr>
          sampleContext scripted \<lparr>world = [exited 1], calls = []\<rparr>)
     = Inr \<lparr>mbSuccess = True, mergeBase = MBNull, isAncestor = Some False,
            mbRefs = [''topic'', ''main''], mbMode = IsAncestor\<rparr>
   \<and> fst (executeMergeBase sampleUtils \<lparr>refs = [''topic'', ''main''], mode = Some IsAncestor\<rparr>
          sampleContext scripted \<lparr>world = [exited 128], calls = []\<rparr>)
     = Inl (DomainError ExecutionFailure ''Command failed''
              (JsError (Some (ExitCode 128)) ''Command failed''))"
  using isAncestor_exit_code_one_is_success
          [of "\<lparr>refs = [''topic'', ''main''], mode = Some IsAncestor\<rparr>" scripted sampleUtils
              sampleContext "\<lparr>world = [exited 1], calls = []\<rparr>"
              "JsError (Some (ExitCode 1)) ''Command failed''" "[]" "''Command failed''" 1]
        isAncestor_exit_code_one_is_success
          [of "\<lparr>refs = [''topic'', ''main''], mode = Some IsAncestor\<rparr>" scripted sampleUtils
              sampleContext "\<lparr>world = [exited 128], calls = []\<rparr>"
              "JsError (Some (ExitCode 128)) ''Command failed''" "[]" "''Command failed''" 128]
  by (simp add: scripted_def exited_def sampleUtils_def sampleContext_def)

section \<open>commit: the signing fallback\<close>

lemma scripted_next: "scripted cmd cwd ctx (r # rest) = (r, rest)"
  by (simp add: scripted_def)

subsection \<open>Each stage on a known outcome of the subprocess\<close>

lemma attemptSigned_fails:
  assumes "shouldSign u options"
    and "execGit (buildGitCommand u (signedCommand options)) (workingDirectory context)
           (requestContext context) (world s) = (Inl e, w1)"
  shows "attemptSigned u options context execGit s =
     ((if truthy (forceUnsignedOnFailure options) then Inr e else Inl e),
      \<lparr>world = w1,
       calls = calls s @
         [\<lparr>spec = signedCommand options, argv = buildGitCommand u (signedCommand options),
           dir = workingDirectory context, succeeded = False\<rparr>]\<rparr>)"
  using assms by (simp add: attemptSigned_def runGit_eq)

lemma attemptUnsigned_runs:
  assumes "ce \<noteq> Null \<or> \<not> shouldSign u options"
    and "execGit (buildGitCommand u (unsignedCommand options)) (workingDirectory context)
           (requestContext context) (world s) = (r, w')"
  shows "attemptUnsigned u options context execGit ce s =
     ((case r of Inl e \<Rightarrow> Inl e | Inr out \<Rightarrow> Inr ()),
      \<lparr>world = w',
       calls = calls s @
         [\<lparr>spec = unsignedCommand options, argv = buildGitCommand u (unsignedCommand options),
           dir = workingDirectory context, succeeded = \<not> isl r\<rparr>]\<rparr>)"
  using assms by (auto simp: attemptUnsigned_def runGit_eq split: sum.splits)


lemma readCommit_calls:
  assumes "readCommit u options context execGit s = (r, s1)"
  shows "\<exists>more. calls s1 = calls s @ more \<and> (\<forall>i \<in> set more. command (spec i) \<noteq> ''commit'')"
  using assms
  by (auto simp: readCommit_def showCommand_def Let_def
           split: if_splits prod.splits sum.splits dest!: runGit_calls)

lemma readCommit_hash_fails:
  assumes "execGit (buildGitCommand u \<lparr>command = ''rev-parse'', args = [''HEAD'']\<rparr>)
             (workingDirectory context) (requestContext context) (world s) = (Inl e, w3)"
  shows "readCommit u options context execGit s =
     (Inl e,
      \<lparr>world = w3,
       calls = calls s @
         [\<lparr>spec = \<lparr>command = ''rev-parse'', args = [''HEAD'']\<rparr>,
           argv = buildGitCommand u \<lparr>command = ''rev-parse'', args = [''HEAD'']\<rparr>,
           dir = workingDirectory context, succeeded = False\<rparr>]\<rparr>)"
  using assms by (simp add: readCommit_def runGit_eq)

lemma readCommit_show_fails:
  assumes "execGit (buildGitCommand u \<lparr>command = ''rev-parse'', args = [''HEAD'']\<rparr>)
             (workingDirectory context) (requestContext context) (world s) = (Inr h, w3)"
    and "execGit (buildGitCommand u (showCommand u (trim (stdout h))))
             (workingDirectory context) (requestContext context) w3 = (Inl e, w4)"
  shows "readCommit u options context execGit s =
     (Inl e,
      \<lparr>world = w4,
       calls = calls s @
         [\<lparr>spec = \<lparr>command = ''rev-parse'', args = [''HEAD'']\<rparr>,
           argv = buildGitCommand u \<lparr>command = ''rev-parse'', args = [''HEAD'']\<rparr>,
           dir = workingDirectory context, succeeded = True\<rparr>,
          \<lparr>spec = showCommand u (trim (stdout h)),
           argv = buildGitCommand u (showCommand u (trim (stdout h))),
           dir = workingDirectory context, succeeded = False\<rparr>]\<rparr>)"
  using assms by (simp add: readCommit_def runGit_eq Let_def)

lemma readCommit_succeeds:
  assumes "execGit (buildGitCommand u \<lparr>command = ''rev-parse'', args = [''HEAD'']\<rparr>)
             (workingDirectory context) (requestContext context) (world s) = (Inr h, w3)"
    and "execGit (buildGitCommand u (showCommand u (trim (stdout h))))
             (workingDirectory context) (requestContext context) w3 = (Inr sh, w4)"
  shows "readCommit u options context execGit s =
     (Inr \<lparr>commitSuccess = True, commitHash = trim (stdout h), commitMessage = message options,
           commitAuthor = parsedAuthor u (stdout sh),
           timestamp = parsedTimestamp u (stdout sh),
           commitFilesChanged = parsedFiles u (stdout sh)\<rparr>,
      \<lparr>world = w4,
       calls = calls s @
         [\<lparr>spec = \<lparr>command = ''rev-parse'', args = [''HEAD'']\<rparr>,
           argv = buildGitCommand u \<lparr>command = ''rev-parse'', args = [''HEAD'']\<rparr>,
           dir = workingDirectory context, succeeded = True\<rparr>,
          \<lparr>spec = showCommand u (trim (stdout h)),
           argv = buildGitCommand u (showCommand u (trim (stdout h))),
           dir = workingDirectory context, succeeded = True\<rparr>]\<rparr>)"
  using assms by (simp add: readCommit_def runGit_eq Let_def)

lemma fallback_enabled:
  "shouldSign sampleUtils fallbackOpts \<and> truthy (forceUnsignedOnFailure fallbackOpts)"
  by (simp add: shouldSign_def fallbackOpts_def signedOpts_def)

lemma showPayload_parsed:
  "parsedAuthor sampleUtils showPayload = ''Alice''
   \<and> parsedTimestamp sampleUtils showPayload = Some 1700000000
   \<and> parsedFiles sampleUtils showPayload = [''a.txt'']
   \<and> trim (''abc123'' @ newline) = ''abc123''"
  by code_simp


lemma fallback_message: "message fallbackOpts = ''fix''"
  by (simp add: fallbackOpts_def signedOpts_def)

subsection \<open>The fallback\<close>

text \<open>
  Claim C2, as stated, fails at two inputs. In the first the signed attempt fails, the
  unsigned attempt succeeds, and the call still fails, because \<open>git rev-parse HEAD\<close>
  fails afterwards. In the second the signed attempt rejects with \<open>null\<close>: that is the
  initial value of \<open>commitError\<close>, the test \<open>commitError !== null\<close> fails, and the
  unsigned command is never run. The log shows the invocations and their outcomes.
\<close>

theorem commit_fallback_counterexample:
  "shouldSign sampleUtils fallbackOpts \<and> truthy (forceUnsignedOnFailure fallbackOpts)
   \<and> map succeeded (newCalls \<lparr>world = [exited 128, ok [], exited 128], calls = []\<rparr>
        (snd (executeCommit sampleUtils fallbackOpts sampleContext scripted
               \<lparr>world = [exited 128, ok [], exited 128], calls = []\<rparr>))) = [False, True, False]
   \<and> map (\<lambda>i. args (spec i)) (newCalls \<lparr>world = [exited 128, ok [], exited 128], calls = []\<rparr>
        (snd (executeCommit sampleUtils fallbackOpts sampleContext scripted
               \<lparr>world = [exited 128, ok [], exited 128], calls = []\<rparr>))) =
         [[''-m'', ''fix'', ''--gpg-sign''], [''-m'', ''fix'', ''--no-gpg-sign''], [''HEAD'']]
   \<and> fst (executeCommit sampleUtils fallbackOpts sampleContext scripted
               \<lparr>world = [exited 128, ok [], exited 128], calls = []\<rparr>)
       = Inl (DomainError ExecutionFailure ''Command failed''
               (JsError (Some (ExitCode 128)) ''Command failed''))
   \<and> map succeeded
        (newCalls \<lparr>world = [rejectedNull, ok (''abc123'' @ newline), ok showPayload], calls = []\<rparr>
        (snd (executeCommit sampleUtils fallbackOpts sampleContext scripted
               \<lparr>world = [rejectedNull, ok (''abc123'' @ newline), ok showPayload],
                 calls = []\<rparr>))) = [False, True, True]
   \<and> map (\<lambda>i. command (spec i))
        (newCalls \<lparr>world = [rejectedNull, ok (''abc123'' @ newline), ok showPayload], calls = []\<rparr>
        (snd (executeCommit sampleUtils fallbackOpts sampleContext scripted
               \<lparr>world = [rejectedNull, ok (''abc123'' @ newline), ok showPayload],
                 calls = []\<rparr>))) = [''commit'', ''rev-parse'', ''show'']
   \<and> unsignedCommand fallbackOpts
       \<notin> spec ` set
        (newCalls \<lparr>world = [rejectedNull, ok (''abc123'' @ newline), ok showPayload], calls = []\<rparr>
        (snd (executeCommit sampleUtils fallbackOpts sampleContext scripted
               \<lparr>world = [rejectedNull, ok (''abc123'' @ newline), ok showPayload],
                 calls = []\<rparr>)))"
  by code_simp

text \<open>
  Claim C2, amended. Signing is enabled (\<open>sign\<close> or the default),
  \<open>forceUnsignedOnFailure\<close> is true and the signed attempt fails with a value other than
  \<open>null\<close>. Then the next invocation is the unsigned command (the same flags with
  \<open>--no-gpg-sign\<close>), run on the world the failed attempt left. If it fails, the call
  fails with its mapped error. If it succeeds, \<open>rev-parse HEAD\<close> and then \<open>show\<close> are
  run on the worlds that follow: a failure of either is the call's mapped error, and when
  both succeed the call reports success with the hash and the metadata they returned.
  Result, final world and log are those of the executor's outcomes.
\<close>

theorem commit_fallback_unsigned:
  assumes "shouldSign u options" and "truthy (forceUnsignedOnFailure options)"
    and e1: "execGit (buildGitCommand u (signedCommand options)) (workingDirectory context)
           (requestContext context) (world s) = (Inl e, w1)"
    and notnull: "e \<noteq> Null"
    and e2: "execGit (buildGitCommand u (unsignedCommand options)) (workingDirectory context)
           (requestContext context) w1 = (r2, w2)"
  shows "take 2 (newCalls s (snd (executeCommit u options context execGit s))) =
           [\<lparr>spec = signedCommand options, argv = buildGitCommand u (signedCommand options),
             dir = workingDirectory context, succeeded = False\<rparr>,
            \<lparr>spec = unsignedCommand options, argv = buildGitCommand u (unsignedCommand options),
             dir = workingDirectory context, succeeded = \<not> isl r2\<rparr>]
       \<and> (r2 = Inl e' \<longrightarrow>
            executeCommit u options context execGit s =
              (Inl (mapGitError u e' ''commit''),
               \<lparr>world = w2,
                calls = calls s @
                  [\<lparr>spec = signedCommand options,
                    argv = buildGitCommand u (signedCommand options),
                    dir = workingDirectory context, succeeded = False\<rparr>,
                   \<lparr>spec = unsignedCommand options,
                    argv = buildGitCommand u (unsignedCommand options),
                    dir = workingDirectory context, succeeded = False\<rparr>]\<rparr>))
       \<and> (r2 = Inr out2
           \<and> execGit (buildGitCommand u \<lparr>command = ''rev-parse'', args = [''HEAD'']\<rparr>)
                (workingDirectory context) (requestContext context) w2 = (Inl e3, w3) \<longrightarrow>
            executeCommit u options context execGit s =
              (Inl (mapGitError u e3 ''commit''),
               \<lparr>world = w3,
                calls = calls s @
                  [\<lparr>spec = signedCommand options,
                    argv = buildGitCommand u (signedCommand options),
                    dir = workingDirectory context, succeeded = False\<rparr>,
                   \<lparr>spec = unsignedCommand options,
                    argv = buildGitCommand u (unsignedCommand options),
                    dir = workingDirectory context, succeeded = True\<rparr>,
                   \<lparr>spec = \<lparr>command = ''rev-parse'', args = [''HEAD'']\<rparr>,
                    argv = buildGitCommand u \<lparr>command = ''rev-parse'', args = [''HEAD'']\<rparr>,
                    dir = workingDirectory context, succeeded = False\<rparr>]\<rparr>))
       \<and> (r2 = Inr out2
           \<and> execGit (buildGitCommand u \<lparr>command = ''rev-parse'', args = [''HEAD'']\<rparr>)
                (workingDirectory context) (requestContext context) w2 = (Inr h, w3)
           \<and> execGit (buildGitCommand u (showCommand u (trim (stdout h))))
                (workingDirectory context) (requestContext context) w3 = (Inl e4, w4) \<longrightarrow>
            executeCommit u options context execGit s =
              (Inl (mapGitError u e4 ''commit''),
               \<lparr>world = w4,
                calls = calls s @
                  [\<lparr>spec = signedCommand options,
                    argv = buildGitCommand u (signedCommand options),
                    dir = workingDirectory context, succeeded = False\<rparr>,
                   \<lparr>spec = unsignedCommand options,
                    argv = buildGitCommand u (unsignedCommand options),
                    dir = workingDirectory context, succeeded = True\<rparr>,
                   \<lparr>spec = \<lparr>command = ''rev-parse'', args = [''HEAD'']\<rparr>,
                    argv = buildGitCommand u \<lparr>command = ''rev-parse'', args = [''HEAD'']\<rparr>,
                    dir = workingDirectory context, succeeded = True\<rparr>,
                   \<lparr>spec = showCommand u (trim (stdout h)),
                    argv = buildGitCommand u (showCommand u (trim (stdout h))),
                    dir = workingDirectory context, succeeded = False\<rparr>]\<rparr>))
       \<and> (r2 = Inr out2
           \<and> execGit (buildGitCommand u \<lparr>command = ''rev-parse'', args = [''HEAD'']\<rparr>)
                (workingDirectory context) (requestContext context) w2 = (Inr h, w3)
           \<and> execGit (buildGitCommand u (showCommand u (trim (stdout h))))
                (workingDirectory context) (requestContext context) w3 = (Inr sh, w4) \<longrightarrow>
            executeCommit u options context execGit s =
              (Inr \<lparr>commitSuccess = True, commitHash = trim (stdout h),
                    commitMessage = message options,
                    commitAuthor = parsedAuthor u (stdout sh),
                    timestamp = parsedTimestamp u (stdout sh),
                    commitFilesChanged = parsedFiles u (stdout sh)\<rparr>,
               \<lparr>world = w4,
                calls = calls s @
                  [\<lparr>spec = signedCommand options,
                    argv = buildGitCommand u (signedCommand options),
                    dir = workingDirectory context, succeeded = False\<rparr>,
                   \<lparr>spec = unsignedCommand options,
                    argv = buildGitCommand u (unsignedCommand options),
                    dir = workingDirectory context, succeeded = True\<rparr>,
                   \<lparr>spec = \<lparr>command = ''rev-parse'', args = [''HEAD'']\<rparr>,
                    argv = buildGitCommand u \<lparr>command = ''rev-parse'', args = [''HEAD'']\<rparr>,
                    dir = workingDirectory context, succeeded = True\<rparr>,
                   \<lparr>spec = showCommand u (trim (stdout h)),
                    argv = buildGitCommand u (showCommand u (trim (stdout h))),
                    dir = workingDirectory context, succeeded = True\<rparr>]\<rparr>))"
proof -
  let ?s1 = "\<lparr>world = w1, calls = calls s @ [\<lparr>spec = signedCommand options,
           argv = buildGitCommand u (signedCommand options),
           dir = workingDirectory context, succeeded = False\<rparr>]\<rparr>"
  let ?s2 = "\<lparr>world = w2, calls = calls ?s1 @ [\<lparr>spec = unsignedCommand options,
           argv = buildGitCommand u (unsignedCommand options),
           dir = workingDirectory context, succeeded = \<not> isl r2\<rparr>]\<rparr>"
  have a1: "attemptSigned u options context execGit s = (Inr e, ?s1)"
    using attemptSigned_fails[of u options execGit "context" s e w1] assms(1,2) e1 by simp
  have a2: "attemptUnsigned u options context execGit e ?s1 =
              ((case r2 of Inl e \<Rightarrow> Inl e | Inr out \<Rightarrow> Inr ()), ?s2)"
    using attemptUnsigned_runs[of e u options execGit "context" ?s1 r2 w2] e2 notnull by simp
  obtain r3 s3 where a3: "readCommit u options context execGit ?s2 = (r3, s3)"
    by (cases "readCommit u options context execGit ?s2")
  from readCommit_calls[OF a3] obtain more where more: "calls s3 = calls ?s2 @ more" by blast
  have failed: ?thesis if "r2 = Inl x" for x
    using that by (simp add: executeCommit_def a1 a2 newCalls_def)
  have committed: ?thesis if r: "r2 = Inr y" for y
  proof -
    have ex: "executeCommit u options context execGit s =
                ((case r3 of Inl e \<Rightarrow> Inl (mapGitError u e ''commit'') | Inr res \<Rightarrow> Inr res), s3)"
      using a3 by (simp add: executeCommit_def a1 a2 r split: sum.splits)
    show ?thesis
      using more r a3
        readCommit_hash_fails[of execGit u "context" ?s2 e3 w3 options]
        readCommit_show_fails[of execGit u "context" ?s2 h w3 e4 w4 options]
        readCommit_succeeds[of execGit u "context" ?s2 h w3 sh w4 options]
      by (auto simp: ex newCalls_def)
  qed
  show ?thesis using failed committed by (cases r2) auto
qed

text \<open>The signed attempt exits with 128, the unsigned one and the two queries succeed.\<close>

theorem commit_fallback_unsigned_witness:
  "shouldSign sampleUtils fallbackOpts \<and> truthy (forceUnsignedOnFailure fallbackOpts)
   \<and> JsError (Some (ExitCode 128)) ''Command failed'' \<noteq> Null
   \<and> executeCommit sampleUtils fallbackOpts sampleContext scripted
         \<lparr>world = [exited 128, ok [], ok (''abc123'' @ newline), ok showPayload], calls = []\<rparr>
      = (Inr \<lparr>commitSuccess = True, commitHash = ''abc123'', commitMessage = ''fix'',
              commitAuthor = ''Alice'', timestamp = Some 1700000000,
              commitFilesChanged = [''a.txt'']\<rparr>,
         \<lparr>world = [],
          calls =
            [\<lparr>spec = signedCommand fallbackOpts,
              argv = buildGitCommand sampleUtils (signedCommand fallbackOpts),
              dir = ''/repo'', succeeded = False\<rparr>,
             \<lparr>spec = unsignedCommand fallbackOpts,
              argv = buildGitCommand sampleUtils (unsignedCommand fallbackOpts),
              dir = ''/repo'', succeeded = True\<rparr>,
             \<lparr>spec = \<lparr>command = ''rev-parse'', args = [''HEAD'']\<rparr>,
              argv = buildGitCommand sampleUtils \<lparr>command = ''rev-parse'', args = [''HEAD'']\<rparr>,
              dir = ''/repo'', succeeded = True\<rparr>,
             \<lparr>spec = showCommand sampleUtils ''abc123'',
              argv = buildGitCommand sampleUtils (showCommand sampleUtils ''abc123''),
              dir = ''/repo'', succeeded = True\<rparr>]\<rparr>)"
  using commit_fallback_unsigned
          [of sampleUtils fallbackOpts scripted sampleContext
              "\<lparr>world = [exited 128, ok [], ok (''abc123'' @ newline), ok showPayload],
                calls = []\<rparr>"
              "JsError (Some (ExitCode 128)) ''Command failed''"
              "[ok [], ok (''abc123'' @ newline), ok showPayload]"
              "ok []" "[ok (''abc123'' @ newline), ok showPayload]"
              "JsError None []" "\<lparr>stdout = [], stderr = []\<rparr>"
              "JsError None []" "[ok showPayload]"
              "\<lparr>stdout = ''abc123'' @ newline, stderr = []\<rparr>"
              "JsError None []" "[]"
              "\<lparr>stdout = showPayload, stderr = []\<rparr>"]
        fallback_enabled showPayload_parsed fallback_message
  by (simp add: scripted_next exited_def ok_def sampleContext_def)

text \<open>
  Claim C3. With \<open>sign = true\<close> and \<open>forceUnsignedOnFailure\<close> unset or false, a failure
  \<open>e\<close> of the signed attempt ends the call with \<open>mapGitError(e, 'commit')\<close>. The log gains
  the failed signed invocation and nothing else: the unsigned command is not run, no
  commit command has succeeded, and the world is the one the failed attempt left.
\<close>

theorem commit_signed_failure_is_final:
  assumes "sign options = Some True" and "\<not> truthy (forceUnsignedOnFailure options)"
    and "execGit (buildGitCommand u (signedCommand options)) (workingDirectory context)
           (requestContext context) (world s) = (Inl e, w1)"
  shows "executeCommit u options context execGit s =
           (Inl (mapGitError u e ''commit''),
            \<lparr>world = w1,
             calls = calls s @
               [\<lparr>spec = signedCommand options, argv = buildGitCommand u (signedCommand options),
                 dir = workingDirectory context, succeeded = False\<rparr>]\<rparr>)
       \<and> successfulWrites (newCalls s (snd (executeCommit u options context execGit s))) = []"
  using assms
  by (simp add: executeCommit_def attemptSigned_def shouldSign_def runGit_eq newCalls_def
        successfulWrites_def)

text \<open>The outcomes scripted after the failure are never consumed.\<close>

theorem commit_signed_failure_is_final_witness:
  "sign signedOpts = Some True \<and> \<not> truthy (forceUnsignedOnFailure signedOpts)
   \<and> executeCommit sampleUtils signedOpts sampleContext scripted
        \<lparr>world = [exited 128, ok [], ok ''abc''], calls = []\<rparr>
     = (Inl (DomainError ExecutionFailure ''Command failed''
              (JsError (Some (ExitCode 128)) ''Command failed'')),
        \<lparr>world = [ok [], ok ''abc''],
         calls = [\<lparr>spec = \<lparr>command = ''commit'', args = [''-m'', ''fix'', ''--gpg-sign'']\<rparr>,
                   argv = [''commit'', ''-m'', ''fix'', ''--gpg-sign''], dir = ''/repo'',
                   succeeded = False\<rparr>]\<rparr>)"
  using commit_signed_failure_is_final
          [of signedOpts scripted sampleUtils sampleContext
              "\<lparr>world = [exited 128, ok [], ok ''abc''], calls = []\<rparr>"
              "JsError (Some (ExitCode 128)) ''Command failed''" "[ok [], ok ''abc'']"]
  by (simp add: scripted_next exited_def signedOpts_def sampleUtils_def sampleContext_def
        signedCommand_def commitArgs_def specBuildGitCommand_def)



section \<open>clone: the parent directory and the returned branch\<close>

lemma cloneArgs_take2: "take 2 (cloneArgs options t) = [remoteUrl options, t]"
  by (simp add: cloneArgs_def)

lemma pathResolve_absolute: "take 1 cwd = ''/'' \<Longrightarrow> take 1 (pathResolve cwd p) = ''/''"
  by (simp add: pathResolve_def Let_def)

lemma pathResolve_absolute_Suc:
  "take (Suc 0) cwd = ''/'' \<Longrightarrow> take (Suc 0) (pathResolve cwd p) = ''/''"
  using pathResolve_absolute[of cwd p] by simp

lemma sample_paths:
  "pathResolve ''/srv/app'' ''/work/proj'' = ''/work/proj''
   \<and> pathDirname ''/work/proj'' = ''/work'' \<and> pathBasename ''/work/proj'' = ''proj''"
  by code_simp

lemma sample_clone:
  "fst (executeClone sampleUtils ''/srv/app'' cloneOpts sampleContext scripted
          \<lparr>world = [], calls = []\<rparr>)
   = Inr \<lparr>cloneSuccess = True, cloneLocalPath = ''/work/proj'',
          cloneRemoteUrl = ''https://example.org/proj.git'', cloneBranch = ''main''\<rparr>"
  by code_simp

lemma sample_clone_dev:
  "fst (executeClone sampleUtils ''/srv/app'' (cloneOpts\<lparr>branch := Some ''dev''\<rparr>) sampleContext
          scripted \<lparr>world = [], calls = []\<rparr>)
   = Inr \<lparr>cloneSuccess = True, cloneLocalPath = ''/work/proj'',
          cloneRemoteUrl = ''https://example.org/proj.git'', cloneBranch = ''dev''\<rparr>"
  by code_simp

text \<open>
  Claim C5. Let \<open>r\<close> and \<open>w'\<close> be the outcome and the world that the executor yields
  for the built \<open>clone\<close> command, whose first two arguments are the remote URL and
  \<open>path.basename\<close> of the resolved local path, run in \<open>path.dirname\<close> of the resolved
  local path on the current world. Then \<open>executeClone\<close> ends in the world \<open>w'\<close> with
  exactly that invocation added to the log; it fails with the mapped error when \<open>r\<close> is a
  failure, and when \<open>r\<close> is a success it returns the resolved path as \<open>localPath\<close>. The
  resolved path is absolute when the working directory of the process is.
\<close>

theorem clone_runs_in_parent_directory:
  assumes "execGit
             (buildGitCommand u
                \<lparr>command = ''clone'',
                 args = cloneArgs options (pathBasename (pathResolve cwd (localPath options)))\<rparr>)
             (pathDirname (pathResolve cwd (localPath options)))
             (requestContext context) (world s) = (r, w')"
  shows "executeClone u cwd options context execGit s =
           ((case r of
               Inl e \<Rightarrow> Inl (mapGitError u e ''clone'')
             | Inr out \<Rightarrow>
                 Inr \<lparr>cloneSuccess = True,
                      cloneLocalPath = pathResolve cwd (localPath options),
                      cloneRemoteUrl = remoteUrl options,
                      cloneBranch = orElse (branch options) ''main''\<rparr>),
            \<lparr>world = w',
             calls = calls s @
               [\<lparr>spec = \<lparr>command = ''clone'',
                         args = cloneArgs options
                                  (pathBasename (pathResolve cwd (localPath options)))\<rparr>,
                 argv = buildGitCommand u
                          \<lparr>command = ''clone'',
                           args = cloneArgs options
                                    (pathBasename (pathResolve cwd (localPath options)))\<rparr>,
                 dir = pathDirname (pathResolve cwd (localPath options)),
                 succeeded = \<not> isl r\<rparr>]\<rparr>)
       \<and> take 2 (cloneArgs options (pathBasename (pathResolve cwd (localPath options))))
           = [remoteUrl options, pathBasename (pathResolve cwd (localPath options))]
       \<and> (take 1 cwd = ''/'' \<longrightarrow> take 1 (pathResolve cwd (localPath options)) = ''/'')"
  using assms
  by (cases r)
     (simp_all add: executeClone_def Let_def runGit_eq cloneArgs_take2 pathResolve_absolute_Suc)

text \<open>
  The example of the specification: \<open>localPath = "/work/proj"\<close> gives the working
  directory \<open>/work\<close>, the destination \<open>proj\<close> and the returned path \<open>/work/proj\<close>; the
  outcome scripted for the subprocess is consumed.
\<close>

theorem clone_runs_in_parent_directory_witness:
  "executeClone sampleUtils ''/srv/app'' cloneOpts sampleContext scripted
      \<lparr>world = [ok ''Cloning into proj''], calls = []\<rparr>
     = (Inr \<lparr>cloneSuccess = True, cloneLocalPath = ''/work/proj'',
             cloneRemoteUrl = ''https://example.org/proj.git'', cloneBranch = ''main''\<rparr>,
        \<lparr>world = [],
         calls = [\<lparr>spec = \<lparr>command = ''clone'',
                           args = [''https://example.org/proj.git'', ''proj'']\<rparr>,
                   argv = [''clone'', ''https://example.org/proj.git'', ''proj''],
                   dir = ''/work'', succeeded = True\<rparr>]\<rparr>)"
  using clone_runs_in_parent_directory
          [of scripted sampleUtils cloneOpts "''/srv/app''" sampleContext
              "\<lparr>world = [ok ''Cloning into proj''], calls = []\<rparr>"
              "ok ''Cloning into proj''" "[]"]
        sample_paths
  by (simp add: cloneOpts_def scripted_next ok_def cloneArgs_def sampleUtils_def
        specBuildGitCommand_def)

text \<open>
  Claim C9, as stated, fails for a branch that is provided but empty: \<open>'' || 'main'\<close>
  is \<open>'main'\<close>, so the empty string is not echoed back.
\<close>

theorem clone_empty_branch_counterexample:
  "branch (cloneOpts\<lparr>branch := Some []\<rparr>) = Some []
   \<and> fst (executeClone sampleUtils ''/srv/app'' (cloneOpts\<lparr>branch := Some []\<rparr>) sampleContext
            scripted \<lparr>world = [], calls = []\<rparr>)
     = Inr \<lparr>cloneSuccess = True, cloneLocalPath = ''/work/proj'',
            cloneRemoteUrl = ''https://example.org/proj.git'', cloneBranch = ''main''\<rparr>"
  by code_simp

text \<open>
  Claim C9, amended. On a successful clone the returned branch is \<open>main\<close> when
  \<open>options.branch\<close> is absent or the empty string, whatever the subprocess printed, and
  it is \<open>options.branch\<close> itself when that is a non-empty string.
\<close>

theorem clone_branch_default:
  assumes "fst (executeClone u cwd options context execGit s) = Inr res"
  shows "(branch options = None \<longrightarrow> cloneBranch res = ''main'')
       \<and> (branch options = Some [] \<longrightarrow> cloneBranch res = ''main'')
       \<and> (branch options = Some b \<and> b \<noteq> [] \<longrightarrow> cloneBranch res = b)"
  using assms by (auto simp: executeClone_def Let_def split: prod.splits sum.splits)

theorem clone_branch_default_witness:
  "branch cloneOpts = None
   \<and> fst (executeClone sampleUtils ''/srv/app'' cloneOpts sampleContext scripted
            \<lparr>world = [], calls = []\<rparr>)
     = Inr \<lparr>cloneSuccess = True, cloneLocalPath = ''/work/proj'',
            cloneRemoteUrl = ''https://example.org/proj.git'', cloneBranch = ''main''\<rparr>
   \<and> fst (executeClone sampleUtils ''/srv/app'' (cloneOpts\<lparr>branch := Some ''dev''\<rparr>)
            sampleContext scripted \<lparr>world = [], calls = []\<rparr>)
     = Inr \<lparr>cloneSuccess = True, cloneLocalPath = ''/work/proj'',
            cloneRemoteUrl = ''https://example.org/proj.git'', cloneBranch = ''dev''\<rparr>"
  using clone_branch_default
          [of sampleUtils "''/srv/app''" cloneOpts sampleContext scripted
              "\<lparr>world = [], calls = []\<rparr>" _ "''dev''", OF sample_clone]
        clone_branch_default
          [of sampleUtils "''/srv/app''" "cloneOpts\<lparr>branch := Some ''dev''\<rparr>" sampleContext
              scripted "\<lparr>world = [], calls = []\<rparr>" _ "''dev''", OF sample_clone_dev]
        sample_clone sample_clone_dev
  by (simp add: cloneOpts_def)

section \<open>diff: ignored options and several paths\<close>

lemma diffArgs_cong:
  assumes "source o1 = source o2" "target o1 = target o2" "path o1 = path o2"
    "staged o1 = staged o2" "nameOnly o1 = nameOnly o2" "unified o1 = unified o2"
  shows "diffArgs o1 = diffArgs o2"
  using assms by (simp add: diffArgs_def cong: option.case_cong)

lemma sample_diff:
  "executeDiff sampleUtils diffOpts sampleContext scripted
      \<lparr>world = [ok ''src/a.ts'', ok []], calls = []\<rparr>
   = (Inr \<lparr>diff = ''src/a.ts'', filesChanged = Some 0, insertions = Some 0,
           deletions = Some 0, binary = Some False\<rparr>,
      \<lparr>world = [],
       calls =
        [\<lparr>spec = \<lparr>command = ''diff'',
                  args = [''--name-only'', ''HEAD~1'', ''HEAD'', ''--'', ''src'']\<rparr>,
          argv = [''diff'', ''--name-only'', ''HEAD~1'', ''HEAD'', ''--'', ''src''],
          dir = ''/repo'', succeeded = True\<rparr>,
         \<lparr>spec = \<lparr>command = ''diff'',
                  args = [''HEAD~1'', ''HEAD'', ''--'', ''src'', ''--stat'']\<rparr>,
          argv = [''diff'', ''HEAD~1'', ''HEAD'', ''--'', ''src'', ''--stat''],
          dir = ''/repo'', succeeded = True\<rparr>]\<rparr>)"
  by code_simp

text \<open>
  Claim C10. Two option objects that agree on every field but \<open>includeUntracked\<close> and
  \<open>stat\<close> give the same arguments for the diff body, the same arguments for the
  diffstat, and, in the same context, on the same executor and run state, the same result
  and the same final state, call log included.
\<close>

theorem diff_ignores_includeUntracked_and_stat:
  assumes "source o1 = source o2" "target o1 = target o2" "path o1 = path o2"
    "staged o1 = staged o2" "nameOnly o1 = nameOnly o2" "unified o1 = unified o2"
  shows "diffArgs o1 = diffArgs o2 \<and> statArgs o1 = statArgs o2
       \<and> executeDiff u o1 context execGit s = executeDiff u o2 context execGit s"
proof -
  have a: "diffArgs o1 = diffArgs o2" by (rule diffArgs_cong[OF assms])
  have b: "statArgs o1 = statArgs o2" by (simp add: statArgs_def a)
  have c: "executeDiff u o1 context execGit s = executeDiff u o2 context execGit s"
    unfolding executeDiff_def a b by (rule refl)
  from a b c show ?thesis by simp
qed

text \<open>Setting both options changes neither the two invocations nor the result.\<close>

theorem diff_ignores_includeUntracked_and_stat_witness:
  "executeDiff sampleUtils (diffOpts\<lparr>includeUntracked := Some True, stat := Some True\<rparr>)
      sampleContext scripted \<lparr>world = [ok ''src/a.ts'', ok []], calls = []\<rparr>
   = (Inr \<lparr>diff = ''src/a.ts'', filesChanged = Some 0, insertions = Some 0,
           deletions = Some 0, binary = Some False\<rparr>,
      \<lparr>world = [],
       calls =
        [\<lparr>spec = \<lparr>command = ''diff'',
                  args = [''--name-only'', ''HEAD~1'', ''HEAD'', ''--'', ''src'']\<rparr>,
          argv = [''diff'', ''--name-only'', ''HEAD~1'', ''HEAD'', ''--'', ''src''],
          dir = ''/repo'', succeeded = True\<rparr>,
         \<lparr>spec = \<lparr>command = ''diff'',
                  args = [''HEAD~1'', ''HEAD'', ''--'', ''src'', ''--stat'']\<rparr>,
          argv = [''diff'', ''HEAD~1'', ''HEAD'', ''--'', ''src'', ''--stat''],
          dir = ''/repo'', succeeded = True\<rparr>]\<rparr>)"
  using diff_ignores_includeUntracked_and_stat
          [of "diffOpts\<lparr>includeUntracked := Some True, stat := Some True\<rparr>" diffOpts
              sampleUtils sampleContext scripted
              "\<lparr>world = [ok ''src/a.ts'', ok []], calls = []\<rparr>"]
        sample_diff
  by simp

lemma diffToolOptions_rejects:
  assumes "inPaths input = Some paths" and "length paths \<ge> 2"
  shows "diffToolOptions input =
           Inl (JsError None ''Multiple paths not yet supported - please specify a single path'')"
proof -
  from assms(2) have "length paths > 0" "length paths > 1" by auto
  with assms(1) show ?thesis by (simp add: diffToolOptions_def Let_def)
qed

text \<open>
  Claim C6, as stated, fails in the kind of the error: with two paths the tool throws
  \<open>new Error(...)\<close>, an error that carries no code and no kind, not a validation error.
  The provider is never called: the call log stays empty.
\<close>

theorem diff_multiple_paths_counterexample:
  "inPaths diffInput = Some [''a.txt'', ''b.txt'']
   \<and> gitDiffLogic diffInput cliDiff ''/repo'' \<lparr>appTenantId = None\<rparr> \<lparr>world = [], calls = []\<rparr>
      = (Inl (JsError None ''Multiple paths not yet supported - please specify a single path''),
         \<lparr>world = [], calls = []\<rparr>)
   \<and> kindOf (JsError None ''Multiple paths not yet supported - please specify a single path'')
      \<noteq> Some ValidationError"
  by code_simp

text \<open>
  Claim C6, amended. With two or more entries in \<open>paths\<close> the tool fails with the
  error "Multiple paths not yet supported - please specify a single path" that it throws
  itself, and it returns the state it was given, whatever the provider is: the provider's
  \<open>diff\<close> is not called, so no subprocess is spawned and the first path is not used on
  its own.
\<close>

theorem diff_rejects_multiple_paths:
  assumes "inPaths input = Some paths" and "length paths \<ge> 2"
  shows "gitDiffLogic input provider targetPath appContext s =
           (Inl (JsError None ''Multiple paths not yet supported - please specify a single path''),
            s)"
  using diffToolOptions_rejects[OF assms] by (simp add: gitDiffLogic_def)

text \<open>With the CLI provider the log of invocations stays empty.\<close>

theorem diff_rejects_multiple_paths_witness:
  "inPaths diffInput = Some [''a.txt'', ''b.txt''] \<and> length [''a.txt'', ''b.txt''] \<ge> (2::nat)
   \<and> gitDiffLogic diffInput cliDiff ''/repo'' \<lparr>appTenantId = None\<rparr> \<lparr>world = [], calls = []\<rparr>
      = (Inl (JsError None ''Multiple paths not yet supported - please specify a single path''),
         \<lparr>world = [], calls = []\<rparr>)"
  using diff_rejects_multiple_paths
          [of diffInput "[''a.txt'', ''b.txt'']" cliDiff "''/repo''" "\<lparr>appTenantId = None\<rparr>"
              "\<lparr>world = [], calls = []\<rparr>"]
  by (simp add: diffInput_def)

section \<open>commit: decoding the metadata payload\<close>

subsection \<open>Splitting a string that lacks the separator\<close>

lemma includesStr_Nil: "includesStr s []"
  by (cases s) auto

lemma includesStr_iff: "includesStr s sep \<longleftrightarrow> (\<exists>a b. s = a @ sep @ b)"
proof (induction s)
  case Nil
  then show ?case by auto
next
  case (Cons c cs)
  show ?case
  proof
    assume "includesStr (c # cs) sep"
    then consider "take (length sep) (c # cs) = sep" | "includesStr cs sep" by auto
    then show "\<exists>a b. c # cs = a @ sep @ b"
    proof cases
      case 1
      then have "c # cs = [] @ sep @ drop (length sep) (c # cs)"
        by (metis append_Nil append_take_drop_id)
      then show ?thesis by blast
    next
      case 2
      with Cons.IH obtain a b where "cs = a @ sep @ b" by blast
      then have "c # cs = (c # a) @ sep @ b" by simp
      then show ?thesis by blast
    qed
  next
    assume "\<exists>a b. c # cs = a @ sep @ b"
    then obtain a b where ab: "c # cs = a @ sep @ b" by blast
    show "includesStr (c # cs) sep"
    proof (cases a)
      case Nil
      with ab have "take (length sep) (c # cs) = sep" by simp
      then show ?thesis by simp
    next
      case (Cons x a')
      with ab have "cs = a' @ sep @ b" by simp
      with Cons.IH have "includesStr cs sep" by blast
      then show ?thesis by simp
    qed
  qed
qed

lemma splitFrom_absent:
  "\<not> includesStr s sep \<Longrightarrow> splitFrom sep cur s = [cur @ s]"
  by (induction s arbitrary: cur) auto

lemma split_absent: "\<not> includesStr s sep \<Longrightarrow> split s sep = [s]"
  using includesStr_Nil[of s] by (auto simp: split_def splitFrom_absent)

lemma splitFrom_pieces:
  "p \<in> set (splitFrom sep cur s) \<Longrightarrow> \<exists>a b. cur @ s = a @ p @ b"
proof (induction sep cur s rule: splitFrom.induct)
  case (1 sep cur)
  then show ?case by (auto intro: exI[of _ "[]"])
next
  case (2 sep cur c cs)
  show ?case
  proof (cases "sep \<noteq> [] \<and> take (length sep) (c # cs) = sep")
    case True
    with 2(3) consider "p = cur"
      | "p \<in> set (splitFrom sep [] (drop (length sep) (c # cs)))" by auto
    then show ?thesis
    proof cases
      case 1
      then have "cur @ c # cs = [] @ p @ (c # cs)" by simp
      then show ?thesis by blast
    next
      case 2
      with "2.IH"(1)[OF True] obtain a b where
        "[] @ drop (length sep) (c # cs) = a @ p @ b" by blast
      then have "cur @ c # cs = (cur @ take (length sep) (c # cs) @ a) @ p @ b"
        by (metis append.assoc append_Nil append_take_drop_id)
      then show ?thesis by blast
    qed
  next
    case False
    with 2(3) have "p \<in> set (splitFrom sep (cur @ [c]) cs)" by auto
    with "2.IH"(2)[OF False] obtain a b where "(cur @ [c]) @ cs = a @ p @ b" by blast
    then show ?thesis by auto
  qed
qed

lemma split_pieces: "p \<in> set (split s sep) \<Longrightarrow> \<exists>a b. s = a @ p @ b"
proof (cases "sep = []")
  case True
  assume "p \<in> set (split s sep)"
  with True obtain c where "c \<in> set s" "p = [c]" by (auto simp: split_def)
  then show ?thesis by (metis append_Cons append_Nil split_list)
next
  case False
  assume "p \<in> set (split s sep)"
  with False have "p \<in> set (splitFrom sep [] s)" by (simp add: split_def)
  from splitFrom_pieces[OF this] show ?thesis by simp
qed

lemma piece_absent:
  assumes "p \<in> set (split s sep)" "\<not> includesStr s d"
  shows "\<not> includesStr p d"
proof
  assume "includesStr p d"
  then obtain x y where "p = x @ d @ y" by (auto simp: includesStr_iff)
  moreover from split_pieces[OF assms(1)] obtain a b where "s = a @ p @ b" by blast
  ultimately have "s = (a @ x) @ d @ (y @ b)" by simp
  then have "includesStr s d" unfolding includesStr_iff by blast
  with assms(2) show False by simp
qed

lemma elemAt_mem: "elemAt xs i = Some x \<Longrightarrow> x \<in> set xs"
  by (auto simp: elemAt_def split: if_splits)

lemma parseInt10_zero: "parseInt10 ''0'' = Some 0"
  by code_simp

lemma files_default: "\<not> includesStr out (GIT_RECORD_DELIMITER u) \<Longrightarrow> parsedFiles u out = []"
  by (simp add: parsedFiles_def split_absent elemAt_def)

lemma metaParts_absent:
  assumes "\<not> includesStr out (GIT_FIELD_DELIMITER u)"
  shows "elemAt (metaParts u out) 1 = None"
proof (cases "elemAt (split out (GIT_RECORD_DELIMITER u)) 0")
  case None
  then show ?thesis by (simp add: metaParts_def elemAt_def)
next
  case (Some p)
  from piece_absent[OF elemAt_mem[OF Some] assms]
  have "split p (GIT_FIELD_DELIMITER u) = [p]"
    by (rule split_absent)
  with Some show ?thesis by (simp add: metaParts_def elemAt_def)
qed

lemma timestamp_default:
  "\<not> includesStr out (GIT_FIELD_DELIMITER u) \<Longrightarrow> parsedTimestamp u out = Some 0"
  using metaParts_absent[of out u] by (simp add: parsedTimestamp_def parseInt10_zero)

lemma author_whole:
  "\<not> includesStr out (GIT_RECORD_DELIMITER u) \<Longrightarrow>
   \<not> includesStr out (GIT_FIELD_DELIMITER u) \<Longrightarrow> parsedAuthor u out = out"
  by (simp add: parsedAuthor_def metaParts_def split_absent elemAt_def)

lemma empty_payload:
  "parsedAuthor u [] = [] \<and> parsedTimestamp u [] = Some 0 \<and> parsedFiles u [] = []"
  by (auto simp: parsedAuthor_def parsedTimestamp_def parsedFiles_def metaParts_def split_def
        elemAt_def parseInt10_zero)

lemma segment_defaults:
  "(elemAt (metaParts u out) 0 = None \<or> elemAt (metaParts u out) 0 = Some []
      \<longrightarrow> parsedAuthor u out = [])
   \<and> (elemAt (metaParts u out) 1 = None \<or> elemAt (metaParts u out) 1 = Some []
      \<longrightarrow> parsedTimestamp u out = Some 0)
   \<and> (elemAt (split out (GIT_RECORD_DELIMITER u)) 1 = None
       \<or> elemAt (split out (GIT_RECORD_DELIMITER u)) 1 = Some []
      \<longrightarrow> parsedFiles u out = [])"
  by (auto simp: parsedAuthor_def parsedTimestamp_def parsedFiles_def parseInt10_zero split_def
        newline_def trim_def)

lemma sample_payloads:
  "\<not> includesStr ''Alice'' (GIT_RECORD_DELIMITER sampleUtils)
   \<and> \<not> includesStr ''Alice'' (GIT_FIELD_DELIMITER sampleUtils)
   \<and> \<not> includesStr (''Alice'' @ [CHR 0x1F] @ ''17'') (GIT_RECORD_DELIMITER sampleUtils)
   \<and> parsedAuthor sampleUtils (''Alice'' @ [CHR 0x1F] @ ''17'') = ''Alice''
   \<and> parsedTimestamp sampleUtils (''Alice'' @ [CHR 0x1F] @ ''17'') = Some 17"
  by code_simp

subsection \<open>The defaults\<close>

text \<open>
  Claim C8. The decoding of the output of \<open>git show\<close> is a total function of that
  output: once the two queries have succeeded the read-back returns a result, whatever
  the output is. A segment that is missing decodes to its default: without the record
  delimiter in the output the list of changed files is empty; without the field
  delimiter the timestamp is zero; a missing or empty author, timestamp or file segment
  gives the empty name, zero and the empty list; the empty output gives all three. With
  neither delimiter the author name is the whole output (its segment is not missing).
\<close>

theorem commit_metadata_defaults:
  "(\<not> includesStr out (GIT_RECORD_DELIMITER u) \<longrightarrow> parsedFiles u out = [])
   \<and> (\<not> includesStr out (GIT_FIELD_DELIMITER u) \<longrightarrow> parsedTimestamp u out = Some 0)
   \<and> (\<not> includesStr out (GIT_RECORD_DELIMITER u) \<and> \<not> includesStr out (GIT_FIELD_DELIMITER u)
        \<longrightarrow> parsedAuthor u out = out)
   \<and> (elemAt (metaParts u out) 0 = None \<or> elemAt (metaParts u out) 0 = Some []
        \<longrightarrow> parsedAuthor u out = [])
   \<and> (elemAt (metaParts u out) 1 = None \<or> elemAt (metaParts u out) 1 = Some []
        \<longrightarrow> parsedTimestamp u out = Some 0)
   \<and> (elemAt (split out (GIT_RECORD_DELIMITER u)) 1 = None
       \<or> elemAt (split out (GIT_RECORD_DELIMITER u)) 1 = Some []
        \<longrightarrow> parsedFiles u out = [])
   \<and> parsedAuthor u [] = [] \<and> parsedTimestamp u [] = Some 0 \<and> parsedFiles u [] = []
   \<and> (execGit (buildGitCommand u \<lparr>command = ''rev-parse'', args = [''HEAD'']\<rparr>)
          (workingDirectory context) (requestContext context) (world s) = (Inr h, w3)
       \<and> execGit (buildGitCommand u (showCommand u (trim (stdout h))))
          (workingDirectory context) (requestContext context) w3
            = (Inr \<lparr>stdout = out, stderr = err\<rparr>, w4)
        \<longrightarrow> fst (readCommit u options context execGit s) =
              Inr \<lparr>commitSuccess = True, commitHash = trim (stdout h),
                    commitMessage = message options, commitAuthor = parsedAuthor u out,
                    timestamp = parsedTimestamp u out,
                    commitFilesChanged = parsedFiles u out\<rparr>)"
  using files_default[of out u] timestamp_default[of out u] author_whole[of out u]
        segment_defaults[of u out] empty_payload[of u]
        readCommit_succeeds[of execGit u "context" s h w3 "\<lparr>stdout = out, stderr = err\<rparr>" w4
                              options]
  by simp

text \<open>
  An output with neither delimiter, and one with the field delimiter only: the files
  are empty in both, the timestamp is zero in the first and read in the second.
\<close>

theorem commit_metadata_defaults_witness:
  "parsedFiles sampleUtils ''Alice'' = [] \<and> parsedTimestamp sampleUtils ''Alice'' = Some 0
   \<and> parsedAuthor sampleUtils ''Alice'' = ''Alice''
   \<and> parsedFiles sampleUtils (''Alice'' @ [CHR 0x1F] @ ''17'') = []
   \<and> parsedTimestamp sampleUtils (''Alice'' @ [CHR 0x1F] @ ''17'') = Some 17
   \<and> parsedAuthor sampleUtils [] = [] \<and> parsedTimestamp sampleUtils [] = Some 0
   \<and> parsedFiles sampleUtils [] = []"
  using commit_metadata_defaults
          [of "''Alice''" sampleUtils scripted sampleContext "\<lparr>world = [], calls = []\<rparr>"
              "\<lparr>stdout = [], stderr = []\<rparr>" "[]" "[]" "[]" signedOpts]
        commit_metadata_defaults
          [of "''Alice'' @ [CHR 0x1F] @ ''17''" sampleUtils scripted sampleContext
              "\<lparr>world = [], calls = []\<rparr>" "\<lparr>stdout = [], stderr = []\<rparr>" "[]" "[]" "[]"
              signedOpts]
        sample_payloads
  by simp

end
